theory Spec2Isabelle
  imports Main "HOL-Library.Char_ord" "HOL-Library.List_Lexorder" "HOL-Library.Product_Lexorder"
begin

section \<open>pyulog: the DatabaseULog persistence engine (src/pyulog/db.py)\<close>

text \<open>
  A shallow embedding of \<^verbatim>\<open>DatabaseULog\<close>: the sqlite3 database is a record of tables
  (each table the list of its rows, in rowid order), the handle is a record of the
  attributes of the Python object, every method takes the handle and the database and
  returns them updated, and every \<^verbatim>\<open>raise\<close> is an error value.
\<close>

subsection \<open>Errors\<close>

text \<open>
  The exceptions of db.py, one constructor for each raise (the names are those of
  section 7 of the specification; the Python class is given beside each), and the
  exceptions of the library calls the methods make.
\<close>

datatype error =
    SchemaVersionTooOld int int      \<comment> \<open>ValueError: Database version d < schema version v\<close>
  | InvalidArguments_both            \<comment> \<open>ValueError: both primary_key and log_file\<close>
  | InvalidArguments_neither         \<comment> \<open>ValueError: neither primary_key nor log_file\<close>
  | AlreadyPersisted                 \<comment> \<open>KeyError: Cannot save logs that are already in the database\<close>
  | DuplicateContent nat             \<comment> \<open>KeyError: Hash already in database with Id=...\<close>
  | NotFound_ULog "nat option"       \<comment> \<open>KeyError: No ULog in database with Id=...\<close>
  | NotFound_Dataset string int      \<comment> \<open>KeyError: Dataset with name ... and multi id ... not found\<close>
  | NotInDatabase                    \<comment> \<open>KeyError: Cannot delete logs that are not in the database\<close>
  | KeyError string                  \<comment> \<open>a dictionary lookup of a missing key\<close>
  | ValueError                       \<comment> \<open>chr out of range, np.frombuffer on a buffer of the wrong size\<close>
  | OperationalError                 \<comment> \<open>sqlite3: json() of malformed JSON\<close>
  | FileNotFoundError string         \<comment> \<open>open of a missing path\<close>
  | TypeError                        \<comment> \<open>subscripting the None that fetchone returns\<close>

subsection \<open>Values, arrays, digests, files\<close>

text \<open>A Python scalar held in an info entry or a parameter; a float is carried by its
  IEEE-754 bit pattern.\<close>

datatype pyval = PyInt int | PyStr string | PyFloat int

text \<open>A one-dimensional numpy array: its element type and its packed bytes
  (\<^verbatim>\<open>tobytes\<close>); \<^verbatim>\<open>np.frombuffer\<close> raises when the buffer is not a whole number
  of elements.\<close>

datatype dtype = int8 | uint8 | int16 | uint16 | int32 | uint32 | int64 | uint64
  | float32 | float64

fun itemsize :: "dtype \<Rightarrow> nat" where
  "itemsize int8 = 1"
| "itemsize uint8 = 1"
| "itemsize int16 = 2"
| "itemsize uint16 = 2"
| "itemsize int32 = 4"
| "itemsize uint32 = 4"
| "itemsize int64 = 8"
| "itemsize uint64 = 8"
| "itemsize float32 = 4"
| "itemsize float64 = 8"

record ndarray =
  arr_dtype :: dtype
  arr_bytes :: "nat list"

definition tobytes :: "ndarray \<Rightarrow> nat list" where
  "tobytes a = arr_bytes a"

definition frombuffer :: "nat list \<Rightarrow> dtype \<Rightarrow> error + ndarray" where
  "frombuffer buf dt =
     (if length buf mod itemsize dt = 0 then Inr \<lparr>arr_dtype = dt, arr_bytes = buf\<rparr>
      else Inl ValueError)"

text \<open>
  \<^verbatim>\<open>hashlib.sha256\<close> is a library function: a digest is the symbolic value
  \<open>SHA256 bs\<close> of the bytes fed to the hash object, so two digests are equal exactly
  when the hashed bytes are (the hash is taken to be collision free).
\<close>

datatype digest = SHA256 "nat list"

text \<open>What \<^verbatim>\<open>calc_sha256sum\<close> is given: a path, or a file object (its name, whether it
  is closed, its position). The file system maps a path to the bytes of the file.\<close>

datatype log_file = Path string | Stream string bool nat

type_synonym filesystem = "string \<Rightarrow> nat list option"

subsection \<open>Python dictionaries\<close>

text \<open>A dict is the list of its items in insertion order; \<^verbatim>\<open>d[k] = v\<close> replaces the
  value of a key that is present, where it stands, and appends a new key.\<close>

fun dict_set :: "('k \<times> 'v) list \<Rightarrow> 'k \<Rightarrow> 'v \<Rightarrow> ('k \<times> 'v) list" where
  "dict_set [] k v = [(k, v)]"
| "dict_set ((k', v') # d) k v = (if k' = k then (k, v) # d else (k', v') # dict_set d k v)"

text \<open>\<^verbatim>\<open>chr(n)\<close> raises ValueError outside \<^verbatim>\<open>range(0x110000)\<close>; a Python string is
  the list of its code points, and \<^verbatim>\<open>ord\<close> reads one back.\<close>

definition py_chr :: "int \<Rightarrow> error + nat" where
  "py_chr n = (if 0 \<le> n \<and> n < 1114112 then Inr (nat n) else Inl ValueError)"

definition py_ord :: "nat \<Rightarrow> int" where
  "py_ord c = int c"

fun join_chr :: "int list \<Rightarrow> error + nat list" where
  "join_chr [] = Inr []"
| "join_chr (n # ns) =
     (case py_chr n of Inl e \<Rightarrow> Inl e
      | Inr c \<Rightarrow> (case join_chr ns of Inl e \<Rightarrow> Inl e | Inr cs \<Rightarrow> Inr (c # cs)))"

subsection \<open>The in-memory log: the classes of the handle\<close>

record FieldData =
  field_name :: string
  type_str :: string

record Data =
  name :: string
  multi_id :: int
  msg_id :: int
  timestamp_idx :: int
  field_data :: "FieldData list"
  data :: "(string \<times> ndarray) list"

record MessageDropout =
  dropout_timestamp :: int
  dropout_duration :: int

record MessageLogging =
  log_level :: int
  log_timestamp :: int
  log_message :: string

record MessageLoggingTagged =
  tagged_log_level :: int
  tagged_tag :: int
  tagged_timestamp :: int
  tagged_message :: string

text \<open>A field of a message format is the tuple (type, array size, field name).\<close>

record MessageFormat =
  format_name :: string
  format_fields :: "(string \<times> int \<times> string) list"

record DatabaseULog =
  pk :: "nat option"
  lazy_loaded :: bool
  sha256sum :: "digest option"
  file_version :: int
  start_timestamp :: int
  last_timestamp :: int
  compat_flags :: "int list"
  incompat_flags :: "int list"
  sync_seq_cnt :: int
  has_sync :: bool
  appended_offsets :: "int list"
  data_list :: "Data list"
  dropouts :: "MessageDropout list"
  logged_messages :: "MessageLogging list"
  logged_messages_tagged :: "(int \<times> MessageLoggingTagged list) list"
  message_formats :: "(string \<times> MessageFormat) list"
  msg_info_dict :: "(string \<times> pyval) list"
  msg_info_dict_types :: "(string \<times> string) list"
  msg_info_multiple_dict :: "(string \<times> pyval list list) list"
  msg_info_multiple_dict_types :: "(string \<times> string) list"
  initial_parameters :: "(string \<times> pyval) list"
  default_parameters :: "(int \<times> (string \<times> pyval) list) list"
  changed_parameters :: "(int \<times> string \<times> pyval) list"

subsection \<open>The database: one list of rows for each table\<close>

record ULog_row =
  Id :: nat
  FileVersion :: int
  StartTimestamp :: int
  LastTimestamp :: int
  CompatFlags :: "nat list"
  IncompatFlags :: "nat list"
  SyncCount :: int
  HasSync :: bool
  SHA256Sum :: "digest option"

record AppendedOffsets_row =
  ao_SeriesIndex :: nat
  ao_Offset :: int
  ao_ULogId :: nat

record Dataset_row =
  ds_Id :: nat
  ds_DatasetName :: string
  ds_MultiId :: int
  ds_MessageId :: int
  ds_TimestampIndex :: int
  ds_ULogId :: nat

record Field_row =
  fd_TopicName :: string
  fd_DataType :: string
  fd_ValueArray :: "nat list"
  fd_ValueJson :: "string option"
  fd_DatasetId :: nat

record MessageDropout_row =
  md_Timestamp :: int
  md_Duration :: int
  md_ULogId :: nat

record MessageLogging_row =
  ml_LogLevel :: int
  ml_Timestamp :: int
  ml_Message :: string
  ml_ULogId :: nat

record MessageLoggingTagged_row =
  mt_LogLevel :: int
  mt_Timestamp :: int
  mt_Tag :: int
  mt_Message :: string
  mt_ULogId :: nat

record MessageFormat_row =
  mf_Id :: nat
  mf_Name :: string
  mf_ULogId :: nat

record MessageFormatField_row =
  ff_FieldType :: string
  ff_ArraySize :: int
  ff_Name :: string
  ff_MessageId :: nat

record MessageInfo_row =
  mi_Key :: string
  mi_Value :: pyval
  mi_Typename :: string
  mi_ULogId :: nat

record MessageInfoMultiple_row =
  mm_Id :: nat
  mm_Key :: string
  mm_Typename :: string
  mm_ULogId :: nat

record MessageInfoMultipleList_row =
  mll_Id :: nat
  mll_SeriesIndex :: nat
  mll_MessageId :: nat

record MessageInfoMultipleListElement_row =
  mle_SeriesIndex :: nat
  mle_Value :: pyval
  mle_ListId :: nat

record InitialParameter_row =
  ip_Key :: string
  ip_Value :: pyval
  ip_ULogId :: nat

record DefaultParameter_row =
  dp_DefaultType :: int
  dp_Key :: string
  dp_Value :: pyval
  dp_ULogId :: nat

record ChangedParameter_row =
  cp_Timestamp :: int
  cp_Key :: string
  cp_Value :: pyval
  cp_ULogId :: nat

record database =
  user_version :: int
  ULog :: "ULog_row list"
  ULogAppendedOffsets :: "AppendedOffsets_row list"
  ULogDataset :: "Dataset_row list"
  ULogField :: "Field_row list"
  ULogMessageDropout :: "MessageDropout_row list"
  ULogMessageLogging :: "MessageLogging_row list"
  ULogMessageLoggingTagged :: "MessageLoggingTagged_row list"
  ULogMessageFormat :: "MessageFormat_row list"
  ULogMessageFormatField :: "MessageFormatField_row list"
  ULogMessageInfo :: "MessageInfo_row list"
  ULogMessageInfoMultiple :: "MessageInfoMultiple_row list"
  ULogMessageInfoMultipleList :: "MessageInfoMultipleList_row list"
  ULogMessageInfoMultipleListElement :: "MessageInfoMultipleListElement_row list"
  ULogInitialParameter :: "InitialParameter_row list"
  ULogDefaultParameter :: "DefaultParameter_row list"
  ULogChangedParameter :: "ChangedParameter_row list"

text \<open>\<^verbatim>\<open>cur.lastrowid\<close> after an INSERT into a table with an integer primary key:
  one more than the largest rowid of the table, 1 in an empty table.\<close>

definition lastrowid :: "nat list \<Rightarrow> nat" where
  "lastrowid ids = Suc (fold max ids 0)"

definition SCHEMA_VERSION :: int where
  "SCHEMA_VERSION = 5"

subsection \<open>calc_sha256sum\<close>

text \<open>The read loop: \<^verbatim>\<open>block = open_file.read(4096); file_hash.update(block)\<close> until
  the block is empty. The state is the position in the file and the bytes hashed so far;
  the result is the bytes hashed and the position the file object is left at.\<close>

function read_blocks :: "nat list \<Rightarrow> nat \<Rightarrow> nat list \<Rightarrow> nat list \<times> nat" where
  "read_blocks content pos file_hash =
     (if take 4096 (drop pos content) = []
      then (file_hash @ take 4096 (drop pos content), pos)
      else read_blocks content (pos + length (take 4096 (drop pos content)))
             (file_hash @ take 4096 (drop pos content)))"
  by pat_completeness auto
termination
  by (relation "measure (\<lambda>(content, pos, file_hash). length content - pos)") auto

declare read_blocks.simps [simp del]

text \<open>
  A path is opened; a closed file object is reopened by its name; an open file object is
  used as it is (\<^verbatim>\<open>contextlib.nullcontext\<close>), so the loop starts at its position
  and leaves it open where the loop ends. The result is the digest and the argument as
  the call leaves it: a file opened by the call is another file object, so that a path
  and a closed file object are left as they were.
\<close>

fun calc_sha256sum :: "filesystem \<Rightarrow> log_file option \<Rightarrow>
    error + digest option \<times> log_file option" where
  "calc_sha256sum fs None = Inr (None, None)"
| "calc_sha256sum fs (Some (Path p)) =
     (case fs p of None \<Rightarrow> Inl (FileNotFoundError p)
      | Some content \<Rightarrow>
          Inr (Some (SHA256 (fst (read_blocks content 0 []))), Some (Path p)))"
| "calc_sha256sum fs (Some (Stream p closed pos)) =
     (if closed then
        (case fs p of None \<Rightarrow> Inl (FileNotFoundError p)
         | Some content \<Rightarrow>
             Inr (Some (SHA256 (fst (read_blocks content 0 []))), Some (Stream p closed pos)))
      else
        (case fs p of None \<Rightarrow> Inl (FileNotFoundError p)
         | Some content \<Rightarrow>
             Inr (Some (SHA256 (fst (read_blocks content pos []))),
                  Some (Stream p closed (snd (read_blocks content pos []))))))"

subsection \<open>The static lookups\<close>

definition exists_in_db :: "database \<Rightarrow> nat option \<Rightarrow> bool" where
  "exists_in_db db primary_key =
     (length (filter (\<lambda>r. Some (Id r) = primary_key) (ULog db)) = 1)"

text \<open>\<^verbatim>\<open>WHERE SHA256Sum = ?\<close> with \<^verbatim>\<open>fetchone\<close>: the first matching row; a NULL
  parameter matches no row.\<close>

definition primary_key_from_sha256sum :: "database \<Rightarrow> digest option \<Rightarrow> nat option" where
  "primary_key_from_sha256sum db sha =
     (case filter (\<lambda>r. sha \<noteq> None \<and> SHA256Sum r = sha) (ULog db) of
        [] \<Rightarrow> None
      | row # _ \<Rightarrow> Some (Id row))"

subsection \<open>get_dataset\<close>

text \<open>The search of \<^verbatim>\<open>self._data_list\<close> for the first dataset with the name and
  the multi id: its index and the dataset.\<close>

fun find_dataset :: "Data list \<Rightarrow> string \<Rightarrow> int \<Rightarrow> (nat \<times> Data) option" where
  "find_dataset [] nm multi_instance = None"
| "find_dataset (dataset # rest) nm multi_instance =
     (if name dataset = nm \<and> multi_id dataset = multi_instance then Some (0, dataset)
      else map_option (\<lambda>(i, d). (Suc i, d)) (find_dataset rest nm multi_instance))"

text \<open>The loop over the rows of ULogField. \<open>unpack_types\<close> is the third column of
  \<^verbatim>\<open>ULog._UNPACK_TYPES\<close> (pyulog/core.py, a table the class inherits): the numpy type of
  a type name; a type name that is not a key raises KeyError.\<close>

fun read_fields :: "(string \<Rightarrow> dtype option) \<Rightarrow> Field_row list \<Rightarrow> FieldData list \<Rightarrow>
    (string \<times> ndarray) list \<Rightarrow> error + (FieldData list \<times> (string \<times> ndarray) list)" where
  "read_fields unpack_types [] flds dat = Inr (flds, dat)"
| "read_fields unpack_types (r # rs) flds dat =
     (case unpack_types (fd_DataType r) of
        None \<Rightarrow> Inl (KeyError (fd_DataType r))
      | Some dt \<Rightarrow>
          (case frombuffer (fd_ValueArray r) dt of
             Inl e \<Rightarrow> Inl e
           | Inr a \<Rightarrow>
               read_fields unpack_types rs
                 (flds @ [\<lparr>field_name = fd_TopicName r, type_str = fd_DataType r\<rparr>])
                 (dict_set dat (fd_TopicName r) a)))"

text \<open>
  The block \<^verbatim>\<open>with db_context:\<close> of get_dataset, the real fetch: the dataset row of
  (name, multi id, ULogId), and unless lazy the rows of its fields, in table order.
  The result is (MessageId, TimestampIndex, fields, data); the number beside it counts
  the \<^verbatim>\<open>cur.execute\<close> calls made.
\<close>

definition fetch_dataset :: "(string \<Rightarrow> dtype option) \<Rightarrow> database \<Rightarrow> nat option \<Rightarrow> string \<Rightarrow>
    int \<Rightarrow> bool \<Rightarrow> (error + (int \<times> int \<times> FieldData list \<times> (string \<times> ndarray) list)) \<times> nat" where
  "fetch_dataset unpack_types db k nm multi_instance lazy =
     (case filter (\<lambda>r. ds_DatasetName r = nm \<and> ds_MultiId r = multi_instance \<and>
                       Some (ds_ULogId r) = k) (ULogDataset db) of
        [] \<Rightarrow> (Inl (NotFound_Dataset nm multi_instance), 1)
      | row # _ \<Rightarrow>
          if lazy then (Inr (ds_MessageId row, ds_TimestampIndex row, [], []), 1)
          else
            (case read_fields unpack_types
                    (filter (\<lambda>f. fd_DatasetId f = ds_Id row) (ULogField db)) [] [] of
               Inl e \<Rightarrow> (Inl e, 2)
             | Inr (flds, dat) \<Rightarrow>
                 (Inr (ds_MessageId row, ds_TimestampIndex row, flds, dat), 2)))"

text \<open>
  get_dataset returns the dataset (or the error), the handle (its cached entry updated
  in place when there is one and caching is on) and the number of statements executed.
  The cursor argument only chooses the connection and is not a parameter here.
\<close>

definition get_dataset :: "(string \<Rightarrow> dtype option) \<Rightarrow> DatabaseULog \<Rightarrow> database \<Rightarrow> string \<Rightarrow>
    int \<Rightarrow> bool \<Rightarrow> bool \<Rightarrow> (error + Data) \<times> DatabaseULog \<times> nat" where
  "get_dataset unpack_types self db nm multi_instance lazy caching =
     (let existing_dataset = find_dataset (data_list self) nm multi_instance in
      case (if caching then
              (case existing_dataset of
                 None \<Rightarrow> None
               | Some (i, d) \<Rightarrow> if lazy \<or> data d \<noteq> [] then Some d else None)
            else None) of
        Some d \<Rightarrow> (Inr d, self, 0)
      | None \<Rightarrow>
          (case fetch_dataset unpack_types db (pk self) nm multi_instance lazy of
             (Inl e, n) \<Rightarrow> (Inl e, self, n)
           | (Inr (m, t, flds, dat), n) \<Rightarrow>
               (case (if caching then existing_dataset else None) of
                  Some (i, d) \<Rightarrow>
                    (let dataset = d\<lparr>msg_id := m, timestamp_idx := t, field_data := flds,
                                     data := dat\<rparr>
                     in (Inr dataset, self\<lparr>data_list := (data_list self)[i := dataset]\<rparr>, n))
                | None \<Rightarrow>
                    (Inr \<lparr>name = nm, multi_id = multi_instance, msg_id = m,
                          timestamp_idx = t, field_data = flds, data = dat\<rparr>, self, n))))"

subsection \<open>load\<close>

fun load_datasets :: "(string \<Rightarrow> dtype option) \<Rightarrow> database \<Rightarrow> bool \<Rightarrow> (string \<times> int) list \<Rightarrow>
    DatabaseULog \<Rightarrow> error option \<times> DatabaseULog" where
  "load_datasets unpack_types db lazy [] self = (None, self)"
| "load_datasets unpack_types db lazy ((dataset_name, multi) # rest) self =
     (case get_dataset unpack_types self db dataset_name multi lazy False of
        (Inl e, self', n) \<Rightarrow> (Some e, self')
      | (Inr dataset, self', n) \<Rightarrow>
          load_datasets unpack_types db lazy rest
            (self'\<lparr>data_list := data_list self' @ [dataset]\<rparr>))"

text \<open>The call \<^verbatim>\<open>DatabaseMessageLoggingTagged(log_level, tag, timestamp, message)\<close> on a
  row of ULogMessageLoggingTagged.\<close>

definition DatabaseMessageLoggingTagged :: "MessageLoggingTagged_row \<Rightarrow> MessageLoggingTagged" where
  "DatabaseMessageLoggingTagged r =
     \<lparr>tagged_log_level = mt_LogLevel r, tagged_tag = mt_Tag r,
      tagged_timestamp = mt_Timestamp r, tagged_message = mt_Message r\<rparr>"

definition add_tagged :: "(int \<times> MessageLoggingTagged list) list \<Rightarrow> MessageLoggingTagged_row \<Rightarrow>
    (int \<times> MessageLoggingTagged list) list" where
  "add_tagged d r =
     (case map_of d (mt_Tag r) of
        None \<Rightarrow> dict_set d (mt_Tag r) [DatabaseMessageLoggingTagged r]
      | Some ms \<Rightarrow> dict_set d (mt_Tag r) (ms @ [DatabaseMessageLoggingTagged r]))"

definition add_format_field :: "(string \<times> MessageFormat) list \<Rightarrow> string \<times> string \<times> int \<times> string \<Rightarrow>
    (string \<times> MessageFormat) list" where
  "add_format_field d row =
     (case row of (msg_name, fdata) \<Rightarrow>
        (case map_of d msg_name of
           Some fmt \<Rightarrow> dict_set d msg_name (fmt\<lparr>format_fields := format_fields fmt @ [fdata]\<rparr>)
         | None \<Rightarrow> dict_set d msg_name \<lparr>format_name = msg_name, format_fields = [fdata]\<rparr>))"

text \<open>The rows of \<^verbatim>\<open>ULogMessageFormat msg JOIN ULogMessageFormatField field\<close>: for each
  format of the log, in table order, its fields in table order.\<close>

definition format_join :: "database \<Rightarrow> nat option \<Rightarrow> (string \<times> string \<times> int \<times> string) list" where
  "format_join db k =
     concat (map (\<lambda>msg. map (\<lambda>f. (mf_Name msg, ff_FieldType f, ff_ArraySize f, ff_Name f))
                          (filter (\<lambda>f. ff_MessageId f = mf_Id msg) (ULogMessageFormatField db)))
                 (filter (\<lambda>msg. Some (mf_ULogId msg) = k) (ULogMessageFormat db)))"

definition info_multiple_lists :: "database \<Rightarrow> nat \<Rightarrow> pyval list list" where
  "info_multiple_lists db message_id =
     map (\<lambda>l. map mle_Value
                 (sort_key mle_SeriesIndex
                    (filter (\<lambda>e. mle_ListId e = mll_Id l) (ULogMessageInfoMultipleListElement db))))
         (sort_key mll_SeriesIndex
            (filter (\<lambda>l. mll_MessageId l = message_id) (ULogMessageInfoMultipleList db)))"

definition add_default_parameter :: "(int \<times> (string \<times> pyval) list) list \<Rightarrow> DefaultParameter_row \<Rightarrow>
    (int \<times> (string \<times> pyval) list) list" where
  "add_default_parameter d r =
     (case map_of d (dp_DefaultType r) of
        None \<Rightarrow> dict_set d (dp_DefaultType r) [(dp_Key r, dp_Value r)]
      | Some ps \<Rightarrow> dict_set d (dp_DefaultType r) (dict_set ps (dp_Key r) (dp_Value r)))"

text \<open>The queries of load, each with the rows it fetches for the log \<open>k\<close>, as the
  values the loop body builds from a row. A query without ORDER BY returns the rows in
  table order.\<close>

definition select_offsets :: "database \<Rightarrow> nat option \<Rightarrow> int list" where
  "select_offsets db k =
     map ao_Offset
       (sort_key ao_SeriesIndex (filter (\<lambda>r. Some (ao_ULogId r) = k) (ULogAppendedOffsets db)))"

definition select_dropouts :: "database \<Rightarrow> nat option \<Rightarrow> MessageDropout list" where
  "select_dropouts db k =
     map (\<lambda>r. \<lparr>dropout_timestamp = md_Timestamp r, dropout_duration = md_Duration r\<rparr>)
       (filter (\<lambda>r. Some (md_ULogId r) = k) (ULogMessageDropout db))"

definition select_logged_messages :: "database \<Rightarrow> nat option \<Rightarrow> MessageLogging list" where
  "select_logged_messages db k =
     map (\<lambda>r. \<lparr>log_level = ml_LogLevel r, log_timestamp = ml_Timestamp r,
                log_message = ml_Message r\<rparr>)
       (filter (\<lambda>r. Some (ml_ULogId r) = k) (ULogMessageLogging db))"

definition select_logged_messages_tagged :: "database \<Rightarrow> nat option \<Rightarrow> MessageLoggingTagged_row list" where
  "select_logged_messages_tagged db k =
     filter (\<lambda>r. Some (mt_ULogId r) = k) (ULogMessageLoggingTagged db)"

definition select_info :: "database \<Rightarrow> nat option \<Rightarrow> MessageInfo_row list" where
  "select_info db k = filter (\<lambda>r. Some (mi_ULogId r) = k) (ULogMessageInfo db)"

definition select_info_multiple :: "database \<Rightarrow> nat option \<Rightarrow> MessageInfoMultiple_row list" where
  "select_info_multiple db k = filter (\<lambda>r. Some (mm_ULogId r) = k) (ULogMessageInfoMultiple db)"

definition select_initial_parameters :: "database \<Rightarrow> nat option \<Rightarrow> InitialParameter_row list" where
  "select_initial_parameters db k = filter (\<lambda>r. Some (ip_ULogId r) = k) (ULogInitialParameter db)"

definition select_default_parameters :: "database \<Rightarrow> nat option \<Rightarrow> DefaultParameter_row list" where
  "select_default_parameters db k = filter (\<lambda>r. Some (dp_ULogId r) = k) (ULogDefaultParameter db)"

definition select_changed_parameters :: "database \<Rightarrow> nat option \<Rightarrow> (int \<times> string \<times> pyval) list" where
  "select_changed_parameters db k =
     map (\<lambda>r. (cp_Timestamp r, cp_Key r, cp_Value r))
       (filter (\<lambda>r. Some (cp_ULogId r) = k) (ULogChangedParameter db))"

text \<open>The part of load after the datasets: each query's rows are appended to, or set
  in, the container the handle already has.\<close>

definition load_rest :: "database \<Rightarrow> DatabaseULog \<Rightarrow> DatabaseULog" where
  "load_rest db self =
     self\<lparr>
       dropouts := dropouts self @ select_dropouts db (pk self),
       logged_messages := logged_messages self @ select_logged_messages db (pk self),
       logged_messages_tagged :=
         foldl add_tagged (logged_messages_tagged self)
           (select_logged_messages_tagged db (pk self)),
       message_formats :=
         foldl add_format_field (message_formats self) (format_join db (pk self)),
       msg_info_dict :=
         foldl (\<lambda>d r. dict_set d (mi_Key r) (mi_Value r)) (msg_info_dict self)
           (select_info db (pk self)),
       msg_info_dict_types :=
         foldl (\<lambda>d r. dict_set d (mi_Key r) (mi_Typename r)) (msg_info_dict_types self)
           (select_info db (pk self)),
       msg_info_multiple_dict :=
         foldl (\<lambda>d r. dict_set d (mm_Key r) (info_multiple_lists db (mm_Id r)))
           (msg_info_multiple_dict self) (select_info_multiple db (pk self)),
       msg_info_multiple_dict_types :=
         foldl (\<lambda>d r. dict_set d (mm_Key r) (mm_Typename r))
           (msg_info_multiple_dict_types self) (select_info_multiple db (pk self)),
       initial_parameters :=
         foldl (\<lambda>d r. dict_set d (ip_Key r) (ip_Value r)) (initial_parameters self)
           (select_initial_parameters db (pk self)),
       default_parameters :=
         foldl add_default_parameter (default_parameters self)
           (select_default_parameters db (pk self)),
       changed_parameters := changed_parameters self @ select_changed_parameters db (pk self)\<rparr>"

text \<open>The first part of load: the header attributes from the ULog row, the appended
  offsets in the order of SeriesIndex, and \<^verbatim>\<open>self._data_list = []\<close>.\<close>

definition load_header :: "database \<Rightarrow> DatabaseULog \<Rightarrow> ULog_row \<Rightarrow> DatabaseULog" where
  "load_header db self ulog_result =
     self\<lparr>
       file_version := FileVersion ulog_result,
       start_timestamp := StartTimestamp ulog_result,
       last_timestamp := LastTimestamp ulog_result,
       compat_flags := map py_ord (CompatFlags ulog_result),
       incompat_flags := map py_ord (IncompatFlags ulog_result),
       sync_seq_cnt := SyncCount ulog_result,
       has_sync := HasSync ulog_result,
       sha256sum := SHA256Sum ulog_result,
       appended_offsets := appended_offsets self @ select_offsets db (pk self),
       data_list := []\<rparr>"

text \<open>\<^verbatim>\<open>SELECT DatasetName, MultiId ... ORDER BY DatasetName, MultiId\<close>.\<close>

definition dataset_results :: "database \<Rightarrow> nat option \<Rightarrow> (string \<times> int) list" where
  "dataset_results db k =
     map (\<lambda>r. (ds_DatasetName r, ds_MultiId r))
       (sort_key (\<lambda>r. (ds_DatasetName r, ds_MultiId r))
          (filter (\<lambda>r. Some (ds_ULogId r) = k) (ULogDataset db)))"

text \<open>
  load returns the error, if one was raised, and the handle as the call left it: an
  exception in the dataset loop leaves the header set, the offsets appended and the
  dataset list partly rebuilt.
\<close>

definition load :: "(string \<Rightarrow> dtype option) \<Rightarrow> DatabaseULog \<Rightarrow> database \<Rightarrow> bool \<Rightarrow>
    error option \<times> DatabaseULog" where
  "load unpack_types self db lazy =
     (if \<not> exists_in_db db (pk self) then (Some (NotFound_ULog (pk self)), self)
      else
        (case filter (\<lambda>r. Some (Id r) = pk self) (ULog db) of
           [] \<Rightarrow> (Some TypeError, self)
         | ulog_result # _ \<Rightarrow>
             (case load_datasets unpack_types db lazy (dataset_results db (pk self))
                     (load_header db self ulog_result) of
                (Some e, self2) \<Rightarrow> (Some e, self2)
              | (None, self2) \<Rightarrow> (None, (load_rest db self2)\<lparr>lazy_loaded := lazy\<rparr>))))"

subsection \<open>The constructor\<close>

text \<open>
  Modelled from the spec: \<^verbatim>\<open>ULog.__init__\<close> with no log file (pyulog/core.py is not
  under src/) leaves every container of the log empty; the header attributes hold
  defaults that load overwrites. The handle of section 4.4 is populated from this state.
\<close>

definition empty_ulog :: DatabaseULog where
  "empty_ulog =
     \<lparr>pk = None, lazy_loaded = True, sha256sum = None, file_version = 0,
      start_timestamp = 0, last_timestamp = 0, compat_flags = [], incompat_flags = [],
      sync_seq_cnt = 0, has_sync = True, appended_offsets = [], data_list = [],
      dropouts = [], logged_messages = [], logged_messages_tagged = [],
      message_formats = [], msg_info_dict = [], msg_info_dict_types = [],
      msg_info_multiple_dict = [], msg_info_multiple_dict_types = [],
      initial_parameters = [], default_parameters = [], changed_parameters = []\<rparr>"

text \<open>
  \<^verbatim>\<open>__init__\<close>: the version check, the argument checks, the digest of the log file,
  the constructor of the base class (\<open>decode\<close>, the decoder of pyulog/core.py, a
  parameter: it yields the attributes of the log, from the log file as the digest
  computation left it), and load when a primary key is given.
\<close>

definition init :: "(string \<Rightarrow> dtype option) \<Rightarrow> (log_file \<Rightarrow> error + DatabaseULog) \<Rightarrow> filesystem \<Rightarrow>
    database \<Rightarrow> nat option \<Rightarrow> log_file option \<Rightarrow> bool \<Rightarrow> error + DatabaseULog" where
  "init unpack_types decode fs db primary_key lf lazy =
     (if user_version db < SCHEMA_VERSION
      then Inl (SchemaVersionTooOld (user_version db) SCHEMA_VERSION)
      else if lf \<noteq> None \<and> primary_key \<noteq> None then Inl InvalidArguments_both
      else if lf = None \<and> primary_key = None then Inl InvalidArguments_neither
      else
        (case calc_sha256sum fs lf of
           Inl e \<Rightarrow> Inl e
         | Inr (sha, lf') \<Rightarrow>
             (case (case lf' of None \<Rightarrow> Inr empty_ulog | Some f \<Rightarrow> decode f) of
                Inl e \<Rightarrow> Inl e
              | Inr ulog \<Rightarrow>
                  (let self = ulog\<lparr>pk := primary_key, lazy_loaded := lazy, sha256sum := sha\<rparr>
                   in if primary_key \<noteq> None then
                        (case load unpack_types self db lazy of
                           (Some e, self') \<Rightarrow> Inl e
                         | (None, self') \<Rightarrow> Inr self')
                      else Inr self))))"

subsection \<open>save\<close>

text \<open>
  The loop over the fields of one dataset. \<open>to_json\<close> is the value of the ValueJson
  column for a timestamp array and a value array: the string Python builds, passed
  through sqlite's \<^verbatim>\<open>json()\<close>, which raises on malformed JSON (None).
\<close>

fun save_fields :: "(ndarray \<Rightarrow> ndarray \<Rightarrow> string option) \<Rightarrow> bool \<Rightarrow> Data \<Rightarrow> nat \<Rightarrow> FieldData list \<Rightarrow>
    Field_row list \<Rightarrow> error + Field_row list" where
  "save_fields to_json append_json dataset dataset_id [] tab = Inr tab"
| "save_fields to_json append_json dataset dataset_id (field # rest) tab =
     (case map_of (data dataset) (field_name field) of
        None \<Rightarrow> Inl (KeyError (field_name field))
      | Some vals \<Rightarrow>
          (case (if append_json then
                   (case map_of (data dataset) ''timestamp'' of
                      None \<Rightarrow> Inl (KeyError ''timestamp'')
                    | Some ts \<Rightarrow>
                        (case to_json ts vals of
                           None \<Rightarrow> Inl OperationalError
                         | Some j \<Rightarrow> Inr (Some j)))
                 else Inr None) of
             Inl e \<Rightarrow> Inl e
           | Inr values_json \<Rightarrow>
               save_fields to_json append_json dataset dataset_id rest
                 (tab @ [\<lparr>fd_TopicName = field_name field, fd_DataType = type_str field,
                          fd_ValueArray = tobytes vals, fd_ValueJson = values_json,
                          fd_DatasetId = dataset_id\<rparr>])))"

fun save_datasets :: "(ndarray \<Rightarrow> ndarray \<Rightarrow> string option) \<Rightarrow> bool \<Rightarrow> nat \<Rightarrow> Data list \<Rightarrow>
    Dataset_row list \<times> Field_row list \<Rightarrow> error + (Dataset_row list \<times> Field_row list)" where
  "save_datasets to_json append_json k [] tabs = Inr tabs"
| "save_datasets to_json append_json k (dataset # rest) (dtab, ftab) =
     (case save_fields to_json append_json dataset (lastrowid (map ds_Id dtab))
             (field_data dataset) ftab of
        Inl e \<Rightarrow> Inl e
      | Inr ftab' \<Rightarrow>
          save_datasets to_json append_json k rest
            (dtab @ [\<lparr>ds_Id = lastrowid (map ds_Id dtab), ds_DatasetName = name dataset,
                      ds_MultiId = multi_id dataset, ds_MessageId = msg_id dataset,
                      ds_TimestampIndex = timestamp_idx dataset, ds_ULogId = k\<rparr>], ftab'))"

fun save_formats :: "nat \<Rightarrow> (string \<times> MessageFormat) list \<Rightarrow>
    MessageFormat_row list \<times> MessageFormatField_row list \<Rightarrow>
    MessageFormat_row list \<times> MessageFormatField_row list" where
  "save_formats k [] tabs = tabs"
| "save_formats k ((nm, message_format) # rest) (mtab, ftab) =
     save_formats k rest
       (mtab @ [\<lparr>mf_Id = lastrowid (map mf_Id mtab), mf_Name = nm, mf_ULogId = k\<rparr>],
        ftab @ map (\<lambda>(ty, sz, fnm). \<lparr>ff_FieldType = ty, ff_ArraySize = sz, ff_Name = fnm,
                                     ff_MessageId = lastrowid (map mf_Id mtab)\<rparr>)
                 (format_fields message_format))"

text \<open>\<^verbatim>\<open>enumerate\<close>.\<close>

definition enumerate_py :: "'a list \<Rightarrow> (nat \<times> 'a) list" where
  "enumerate_py xs = zip [0..<length xs] xs"

fun save_lists :: "nat \<Rightarrow> (nat \<times> pyval list) list \<Rightarrow>
    MessageInfoMultipleList_row list \<times> MessageInfoMultipleListElement_row list \<Rightarrow>
    MessageInfoMultipleList_row list \<times> MessageInfoMultipleListElement_row list" where
  "save_lists message_id [] tabs = tabs"
| "save_lists message_id ((list_index, message_list) # rest) (ltab, etab) =
     save_lists message_id rest
       (ltab @ [\<lparr>mll_Id = lastrowid (map mll_Id ltab), mll_SeriesIndex = list_index,
                 mll_MessageId = message_id\<rparr>],
        etab @ map (\<lambda>(series_index, v). \<lparr>mle_SeriesIndex = series_index, mle_Value = v,
                                          mle_ListId = lastrowid (map mll_Id ltab)\<rparr>)
                 (enumerate_py message_list))"

fun save_info_multiple :: "nat \<Rightarrow> (string \<times> string) list \<Rightarrow> (string \<times> pyval list list) list \<Rightarrow>
    MessageInfoMultiple_row list \<times> MessageInfoMultipleList_row list \<times>
      MessageInfoMultipleListElement_row list \<Rightarrow>
    error + (MessageInfoMultiple_row list \<times> MessageInfoMultipleList_row list \<times>
      MessageInfoMultipleListElement_row list)" where
  "save_info_multiple k types [] tabs = Inr tabs"
| "save_info_multiple k types ((key, lsts) # rest) (mtab, ltab, etab) =
     (case map_of types key of
        None \<Rightarrow> Inl (KeyError key)
      | Some typename \<Rightarrow>
          (case save_lists (lastrowid (map mm_Id mtab)) (enumerate_py lsts) (ltab, etab) of
             (ltab', etab') \<Rightarrow>
               save_info_multiple k types rest
                 (mtab @ [\<lparr>mm_Id = lastrowid (map mm_Id mtab), mm_Key = key,
                           mm_Typename = typename, mm_ULogId = k\<rparr>], ltab', etab')))"

text \<open>The rows of ULogMessageInfo: a list comprehension that looks each key's type up.\<close>

fun info_rows :: "nat \<Rightarrow> (string \<times> string) list \<Rightarrow> (string \<times> pyval) list \<Rightarrow>
    error + MessageInfo_row list" where
  "info_rows k types [] = Inr []"
| "info_rows k types ((key, v) # rest) =
     (case map_of types key of
        None \<Rightarrow> Inl (KeyError key)
      | Some typename \<Rightarrow>
          (case info_rows k types rest of
             Inl e \<Rightarrow> Inl e
           | Inr rows \<Rightarrow>
               Inr (\<lparr>mi_Key = key, mi_Value = v, mi_Typename = typename, mi_ULogId = k\<rparr> # rows)))"

text \<open>
  The statements of save inside \<^verbatim>\<open>with self._db() as con\<close>, on the tables as the
  transaction sees them; \<open>k\<close> is the rowid of the new ULog row and \<open>cf\<close>, \<open>icf\<close> are
  the two flag strings.
\<close>

definition save_rows :: "(ndarray \<Rightarrow> ndarray \<Rightarrow> string option) \<Rightarrow> bool \<Rightarrow> DatabaseULog \<Rightarrow> nat \<Rightarrow>
    nat list \<Rightarrow> nat list \<Rightarrow> database \<Rightarrow> error + database" where
  "save_rows to_json append_json self k cf icf db =
     (case save_datasets to_json append_json k (data_list self) (ULogDataset db, ULogField db) of
        Inl e \<Rightarrow> Inl e
      | Inr (dtab, ftab) \<Rightarrow>
          (case info_rows k (msg_info_dict_types self) (msg_info_dict self) of
             Inl e \<Rightarrow> Inl e
           | Inr irows \<Rightarrow>
               (case save_info_multiple k (msg_info_multiple_dict_types self)
                       (msg_info_multiple_dict self)
                       (ULogMessageInfoMultiple db, ULogMessageInfoMultipleList db,
                        ULogMessageInfoMultipleListElement db) of
                  Inl e \<Rightarrow> Inl e
                | Inr (mtab, ltab, etab) \<Rightarrow>
                    (case save_formats k (message_formats self)
                            (ULogMessageFormat db, ULogMessageFormatField db) of
                       (fmtab, fftab) \<Rightarrow>
                         Inr (db\<lparr>
                           ULog := ULog db @
                             [\<lparr>Id = k, FileVersion = file_version self,
                               StartTimestamp = start_timestamp self,
                               LastTimestamp = last_timestamp self,
                               CompatFlags = cf, IncompatFlags = icf,
                               SyncCount = sync_seq_cnt self, HasSync = has_sync self,
                               SHA256Sum = sha256sum self\<rparr>],
                           ULogAppendedOffsets := ULogAppendedOffsets db @
                             map (\<lambda>(list_index, offset).
                                    \<lparr>ao_SeriesIndex = list_index, ao_Offset = offset,
                                     ao_ULogId = k\<rparr>)
                               (enumerate_py (appended_offsets self)),
                           ULogDataset := dtab,
                           ULogField := ftab,
                           ULogMessageDropout := ULogMessageDropout db @
                             map (\<lambda>dropout. \<lparr>md_Timestamp = dropout_timestamp dropout,
                                             md_Duration = dropout_duration dropout,
                                             md_ULogId = k\<rparr>) (dropouts self),
                           ULogMessageLogging := ULogMessageLogging db @
                             map (\<lambda>m. \<lparr>ml_LogLevel = log_level m, ml_Timestamp = log_timestamp m,
                                       ml_Message = log_message m, ml_ULogId = k\<rparr>)
                               (logged_messages self),
                           ULogMessageLoggingTagged := ULogMessageLoggingTagged db @
                             concat (map (\<lambda>(tg, messages).
                                       map (\<lambda>m. \<lparr>mt_LogLevel = tagged_log_level m,
                                                 mt_Timestamp = tagged_timestamp m, mt_Tag = tg,
                                                 mt_Message = tagged_message m, mt_ULogId = k\<rparr>)
                                         messages)
                                     (logged_messages_tagged self)),
                           ULogMessageFormat := fmtab,
                           ULogMessageFormatField := fftab,
                           ULogMessageInfo := ULogMessageInfo db @ irows,
                           ULogMessageInfoMultiple := mtab,
                           ULogMessageInfoMultipleList := ltab,
                           ULogMessageInfoMultipleListElement := etab,
                           ULogInitialParameter := ULogInitialParameter db @
                             map (\<lambda>(key, v). \<lparr>ip_Key = key, ip_Value = v, ip_ULogId = k\<rparr>)
                               (initial_parameters self),
                           ULogDefaultParameter := ULogDefaultParameter db @
                             concat (map (\<lambda>(default_type, parameters).
                                       map (\<lambda>(key, v). \<lparr>dp_DefaultType = default_type,
                                                        dp_Key = key, dp_Value = v,
                                                        dp_ULogId = k\<rparr>) parameters)
                                     (default_parameters self)),
                           ULogChangedParameter := ULogChangedParameter db @
                             map (\<lambda>(ts, key, v). \<lparr>cp_Timestamp = ts, cp_Key = key,
                                                   cp_Value = v, cp_ULogId = k\<rparr>)
                               (changed_parameters self)\<rparr>)))))"

text \<open>
  \<^verbatim>\<open>with self._db() as con\<close>: the connection commits when the block ends and rolls
  back when it raises, so the database is the block's result or the one it started from.
\<close>

definition transaction :: "(database \<Rightarrow> error + database) \<Rightarrow> database \<Rightarrow> error option \<times> database" where
  "transaction block db = (case block db of Inl e \<Rightarrow> (Some e, db) | Inr db' \<Rightarrow> (None, db'))"

text \<open>
  save returns the error, if any, the handle and the database. The handle's primary key
  is assigned inside the block, right after the INSERT into ULog, and stays assigned when
  a later statement raises.
\<close>

definition save :: "(ndarray \<Rightarrow> ndarray \<Rightarrow> string option) \<Rightarrow> DatabaseULog \<Rightarrow> database \<Rightarrow> bool \<Rightarrow>
    error option \<times> DatabaseULog \<times> database" where
  "save to_json self db append_json =
     (if pk self \<noteq> None then (Some AlreadyPersisted, self, db)
      else
        (case primary_key_from_sha256sum db (sha256sum self) of
           Some pk_from_hash \<Rightarrow>
             (Some (DuplicateContent pk_from_hash), self\<lparr>pk := Some pk_from_hash\<rparr>, db)
         | None \<Rightarrow>
             (case join_chr (compat_flags self) of
                Inl e \<Rightarrow> (Some e, self, db)
              | Inr cf \<Rightarrow>
                  (case join_chr (incompat_flags self) of
                     Inl e \<Rightarrow> (Some e, self, db)
                   | Inr icf \<Rightarrow>
                       (case transaction
                               (save_rows to_json append_json self
                                  (lastrowid (map Id (ULog db))) cf icf) db of
                          (r, db') \<Rightarrow>
                            (r, self\<lparr>pk := Some (lastrowid (map Id (ULog db)))\<rparr>, db'))))))"

subsection \<open>delete\<close>



subsection \<open>Invariants of the database used in the statements\<close>

text \<open>The content digest is unique across the rows of ULog (section 3 of the
  specification); rows without a digest are not constrained.\<close>

definition unique_digests :: "database \<Rightarrow> bool" where
  "unique_digests db = distinct (filter (\<lambda>d. d \<noteq> None) (map SHA256Sum (ULog db)))"


text \<open>The number of rows of each table, in the order of the record; the number of rows
  that save writes into each table for a log; and the rows of one database being kept,
  at the head of each table, in another.\<close>

definition table_sizes :: "database \<Rightarrow> nat list" where
  "table_sizes db =
     [length (ULog db), length (ULogAppendedOffsets db), length (ULogDataset db),
      length (ULogField db), length (ULogMessageDropout db), length (ULogMessageLogging db),
      length (ULogMessageLoggingTagged db), length (ULogMessageFormat db),
      length (ULogMessageFormatField db), length (ULogMessageInfo db),
      length (ULogMessageInfoMultiple db), length (ULogMessageInfoMultipleList db),
      length (ULogMessageInfoMultipleListElement db), length (ULogInitialParameter db),
      length (ULogDefaultParameter db), length (ULogChangedParameter db)]"

definition log_sizes :: "DatabaseULog \<Rightarrow> nat list" where
  "log_sizes self =
     [1, length (appended_offsets self), length (data_list self),
      sum_list (map (\<lambda>d. length (field_data d)) (data_list self)),
      length (dropouts self), length (logged_messages self),
      sum_list (map (\<lambda>(tg, ms). length ms) (logged_messages_tagged self)),
      length (message_formats self),
      sum_list (map (\<lambda>(nm, f). length (format_fields f)) (message_formats self)),
      length (msg_info_dict self), length (msg_info_multiple_dict self),
      sum_list (map (\<lambda>(key, ls). length ls) (msg_info_multiple_dict self)),
      sum_list (map (\<lambda>(key, ls). sum_list (map length ls)) (msg_info_multiple_dict self)),
      length (initial_parameters self),
      sum_list (map (\<lambda>(ty, ps). length ps) (default_parameters self)),
      length (changed_parameters self)]"

definition rows_kept :: "database \<Rightarrow> database \<Rightarrow> bool" where
  "rows_kept db db' =
     (user_version db' = user_version db \<and>
      take (length (ULog db)) (ULog db') = ULog db \<and>
      take (length (ULogAppendedOffsets db)) (ULogAppendedOffsets db') = ULogAppendedOffsets db \<and>
      take (length (ULogDataset db)) (ULogDataset db') = ULogDataset db \<and>
      take (length (ULogField db)) (ULogField db') = ULogField db \<and>
      take (length (ULogMessageDropout db)) (ULogMessageDropout db') = ULogMessageDropout db \<and>
      take (length (ULogMessageLogging db)) (ULogMessageLogging db') = ULogMessageLogging db \<and>
      take (length (ULogMessageLoggingTagged db)) (ULogMessageLoggingTagged db') =
        ULogMessageLoggingTagged db \<and>
      take (length (ULogMessageFormat db)) (ULogMessageFormat db') = ULogMessageFormat db \<and>
      take (length (ULogMessageFormatField db)) (ULogMessageFormatField db') =
        ULogMessageFormatField db \<and>
      take (length (ULogMessageInfo db)) (ULogMessageInfo db') = ULogMessageInfo db \<and>
      take (length (ULogMessageInfoMultiple db)) (ULogMessageInfoMultiple db') =
        ULogMessageInfoMultiple db \<and>
      take (length (ULogMessageInfoMultipleList db)) (ULogMessageInfoMultipleList db') =
        ULogMessageInfoMultipleList db \<and>
      take (length (ULogMessageInfoMultipleListElement db))
        (ULogMessageInfoMultipleListElement db') = ULogMessageInfoMultipleListElement db \<and>
      take (length (ULogInitialParameter db)) (ULogInitialParameter db') =
        ULogInitialParameter db \<and>
      take (length (ULogDefaultParameter db)) (ULogDefaultParameter db') =
        ULogDefaultParameter db \<and>
      take (length (ULogChangedParameter db)) (ULogChangedParameter db') =
        ULogChangedParameter db)"


subsection \<open>Decoded logs and their equality\<close>







text \<open>The database with the secondary encoding, the ValueJson column, blanked.\<close>

definition erase_json :: "database \<Rightarrow> database" where
  "erase_json db = db\<lparr>ULogField := map (\<lambda>f. f\<lparr>fd_ValueJson := None\<rparr>) (ULogField db)\<rparr>"

subsection \<open>Example values\<close>

text \<open>A database at schema version \<open>v\<close> with no rows.\<close>

definition new_database :: "int \<Rightarrow> database" where
  "new_database v =
     \<lparr>user_version = v, ULog = [], ULogAppendedOffsets = [], ULogDataset = [], ULogField = [],
      ULogMessageDropout = [], ULogMessageLogging = [], ULogMessageLoggingTagged = [],
      ULogMessageFormat = [], ULogMessageFormatField = [], ULogMessageInfo = [],
      ULogMessageInfoMultiple = [], ULogMessageInfoMultipleList = [],
      ULogMessageInfoMultipleListElement = [], ULogInitialParameter = [],
      ULogDefaultParameter = [], ULogChangedParameter = []\<rparr>"

text \<open>An instance of the type table, of the JSON encoder, and a decoded log with the
  two datasets (imu, 0) and (imu, 1) of section 8 of the specification.\<close>

definition example_unpack_types :: "string \<Rightarrow> dtype option" where
  "example_unpack_types t =
     (if t = ''uint64_t'' then Some uint64
      else if t = ''float'' then Some float32
      else if t = ''int8_t'' then Some int8
      else None)"

definition example_to_json :: "ndarray \<Rightarrow> ndarray \<Rightarrow> string option" where
  "example_to_json ts vals = (if length (arr_bytes vals) < 64 then Some ''{}'' else None)"

definition example_log :: DatabaseULog where
  "example_log =
     \<lparr>pk = None, lazy_loaded = True, sha256sum = Some (SHA256 [85, 76, 111]), file_version = 1,
      start_timestamp = 100, last_timestamp = 900, compat_flags = [1, 0],
      incompat_flags = [0, 0], sync_seq_cnt = 2, has_sync = True, appended_offsets = [40, 80],
      data_list =
        [\<lparr>name = ''imu'', multi_id = 0, msg_id = 3, timestamp_idx = 0,
          field_data = [\<lparr>field_name = ''timestamp'', type_str = ''uint64_t''\<rparr>,
                        \<lparr>field_name = ''value'', type_str = ''float''\<rparr>],
          data = [(''timestamp'', \<lparr>arr_dtype = uint64, arr_bytes = [1, 0, 0, 0, 0, 0, 0, 0]\<rparr>),
                  (''value'', \<lparr>arr_dtype = float32, arr_bytes = [0, 0, 128, 63]\<rparr>)]\<rparr>,
         \<lparr>name = ''imu'', multi_id = 1, msg_id = 4, timestamp_idx = 0,
          field_data = [\<lparr>field_name = ''timestamp'', type_str = ''uint64_t''\<rparr>,
                        \<lparr>field_name = ''value'', type_str = ''float''\<rparr>],
          data = [(''timestamp'', \<lparr>arr_dtype = uint64, arr_bytes = [2, 0, 0, 0, 0, 0, 0, 0]\<rparr>),
                  (''value'', \<lparr>arr_dtype = float32, arr_bytes = [0, 0, 0, 64]\<rparr>)]\<rparr>],
      dropouts = [\<lparr>dropout_timestamp = 200, dropout_duration = 5\<rparr>],
      logged_messages = [\<lparr>log_level = 6, log_timestamp = 150, log_message = ''armed''\<rparr>],
      logged_messages_tagged =
        [(2, [\<lparr>tagged_log_level = 4, tagged_tag = 2, tagged_timestamp = 160,
               tagged_message = ''gps''\<rparr>])],
      message_formats =
        [(''imu'', \<lparr>format_name = ''imu'',
                    format_fields = [(''uint64_t'', 1, ''timestamp''), (''float'', 1, ''value'')]\<rparr>)],
      msg_info_dict = [(''sys_name'', PyStr ''PX4'')],
      msg_info_dict_types = [(''sys_name'', ''char[3]'')],
      msg_info_multiple_dict = [(''perf'', [[PyStr ''a'', PyStr ''b''], [PyStr ''c'']])],
      msg_info_multiple_dict_types = [(''perf'', ''char[1]'')],
      initial_parameters = [(''SYS_AUTOSTART'', PyInt 4001)],
      default_parameters = [(1, [(''SYS_AUTOSTART'', PyInt 0)])],
      changed_parameters = [(300, ''SYS_AUTOSTART'', PyInt 4002)]\<rparr>"

text \<open>The database after the example log is saved into an empty one.\<close>

definition example_db :: database where
  "example_db = snd (snd (save example_to_json example_log (new_database 5) False))"

text \<open>The database after the example log is saved with the JSON encoding on.\<close>

definition example_db_json :: database where
  "example_db_json = snd (snd (save example_to_json example_log (new_database 5) True))"

text \<open>A log whose only dataset declares a field for which it holds no data.\<close>

definition example_bad_log :: DatabaseULog where
  "example_bad_log =
     example_log\<lparr>sha256sum := Some (SHA256 [1]),
        data_list :=
          [\<lparr>name = ''gps'', multi_id = 0, msg_id = 7, timestamp_idx = 0,
            field_data = [\<lparr>field_name = ''timestamp'', type_str = ''uint64_t''\<rparr>,
                          \<lparr>field_name = ''value'', type_str = ''float''\<rparr>],
            data = [(''timestamp'', \<lparr>arr_dtype = uint64, arr_bytes = [1, 0, 0, 0, 0, 0, 0, 0]\<rparr>)]\<rparr>]\<rparr>"



text \<open>The handle that a lazy load of the example gives.\<close>

definition example_lazy :: DatabaseULog where
  "example_lazy = snd (load example_unpack_types (empty_ulog\<lparr>pk := Some 1\<rparr>) example_db True)"

section \<open>Properties\<close>

subsection \<open>calc_sha256sum\<close>





subsection \<open>The schema gate\<close>

text \<open>
  C6. When the version counter of the database is below SCHEMA_VERSION, the constructor
  fails with the schema-version error whatever primary key and log file it is given
  (one, both or neither), and the outcome is the same for every database with that
  version counter: no table is consulted. The constructor writes nothing in any case.
\<close>

theorem schema_gate:
  assumes "user_version db < SCHEMA_VERSION"
  shows "init unpack_types decode fs db primary_key lf lazy =
           Inl (SchemaVersionTooOld (user_version db) SCHEMA_VERSION) \<and>
         (\<forall>db'. user_version db' = user_version db \<longrightarrow>
            init unpack_types decode fs db' primary_key lf lazy =
            init unpack_types decode fs db primary_key lf lazy)"
  using assms by (simp add: init_def)

theorem schema_gate_witness:
  "user_version (new_database 4) < SCHEMA_VERSION \<and>
   init (\<lambda>t. None) (\<lambda>f. Inl ValueError) (\<lambda>p. None) (new_database 4) (Some 1) None True =
     Inl (SchemaVersionTooOld 4 5) \<and>
   init (\<lambda>t. None) (\<lambda>f. Inl ValueError) (\<lambda>p. None)
     ((new_database 4)\<lparr>ULogMessageDropout := [\<lparr>md_Timestamp = 1, md_Duration = 2, md_ULogId = 1\<rparr>]\<rparr>)
     (Some 1) None True =
   init (\<lambda>t. None) (\<lambda>f. Inl ValueError) (\<lambda>p. None) (new_database 4) (Some 1) None True"
proof -
  have v: "user_version (new_database 4) < SCHEMA_VERSION"
    by (simp add: new_database_def SCHEMA_VERSION_def)
  show ?thesis
    using v schema_gate [OF v, of "\<lambda>t. None" "\<lambda>f. Inl ValueError" "\<lambda>p. None" "Some 1" None True]
    by (simp add: new_database_def SCHEMA_VERSION_def)
qed

subsection \<open>Dedup on save\<close>

lemma filter_digest_unique:
  assumes "distinct (filter (\<lambda>d. d \<noteq> None) (map f xs))" and "x \<in> set xs" and "f x = Some d"
  shows "filter (\<lambda>r. f r = Some d) xs = [x]"
  using assms
proof (induction xs)
  case Nil
  then show ?case by simp
next
  case (Cons a xs)
  show ?case
  proof (cases "f a = Some d")
    case True
    with Cons.prems(1) have "Some d \<notin> set (map f xs)" by auto
    then have nomatch: "\<And>r. r \<in> set xs \<Longrightarrow> f r \<noteq> Some d"
      by (metis image_eqI set_map)
    then have none: "filter (\<lambda>r. f r = Some d) xs = []"
      by (simp add: filter_empty_conv)
    have "x = a"
    proof (rule ccontr)
      assume "x \<noteq> a"
      with Cons.prems(2) have "x \<in> set xs" by simp
      with Cons.prems(3) nomatch show False by blast
    qed
    with True none show ?thesis by simp
  next
    case False
    with Cons.prems have "x \<in> set xs" by auto
    moreover from Cons.prems(1) have "distinct (filter (\<lambda>d. d \<noteq> None) (map f xs))"
      by (simp split: if_splits)
    ultimately show ?thesis using Cons.IH Cons.prems(3) False by simp
  qed
qed

text \<open>
  C2. A handle without a primary key whose digest is the digest of a row of ULog, in a
  database where digests are unique: save fails with the duplicate-content error that
  carries the Id of that row, the handle's primary key is that Id afterwards (nothing
  else of the handle changes), the database is unchanged, and exactly one row of ULog has the digest.
\<close>

theorem save_duplicate_content:
  assumes "pk self = None" and "sha256sum self = Some d" and "row \<in> set (ULog db)"
    and "SHA256Sum row = Some d" and "unique_digests db"
  shows "case save to_json self db append_json of
           (r, self', db') \<Rightarrow>
             r = Some (DuplicateContent (Id row)) \<and> self' = self\<lparr>pk := Some (Id row)\<rparr> \<and>
             pk self' = Some (Id row) \<and> db' = db \<and>
             length (filter (\<lambda>r. SHA256Sum r = sha256sum self) (ULog db')) = 1"
proof -
  have f: "filter (\<lambda>r. SHA256Sum r = Some d) (ULog db) = [row]"
    using assms(3-5) filter_digest_unique [of SHA256Sum "ULog db" row d]
    by (simp add: unique_digests_def)
  then have "primary_key_from_sha256sum db (sha256sum self) = Some (Id row)"
    by (simp add: primary_key_from_sha256sum_def assms(2))
  then show ?thesis using assms(1,2) f by (simp add: save_def)
qed

theorem save_duplicate_content_witness:
  "pk example_log = None \<and> sha256sum example_log = Some (SHA256 [85, 76, 111]) \<and>
   hd (ULog example_db) \<in> set (ULog example_db) \<and>
   SHA256Sum (hd (ULog example_db)) = Some (SHA256 [85, 76, 111]) \<and>
   unique_digests example_db \<and>
   save example_to_json example_log example_db True =
     (Some (DuplicateContent 1), example_log\<lparr>pk := Some 1\<rparr>, example_db) \<and>
   length (filter (\<lambda>r. SHA256Sum r = sha256sum example_log) (ULog example_db)) = 1"
proof -
  have h1: "pk example_log = None" by code_simp
  have h2: "sha256sum example_log = Some (SHA256 [85, 76, 111])" by code_simp
  have h3: "hd (ULog example_db) \<in> set (ULog example_db)" by code_simp
  have h4: "SHA256Sum (hd (ULog example_db)) = Some (SHA256 [85, 76, 111])" by code_simp
  have h5: "unique_digests example_db" by code_simp
  have i: "Id (hd (ULog example_db)) = 1" by code_simp
  show ?thesis
    using save_duplicate_content [OF h1 h2 h3 h4 h5, of example_to_json True] h1 h2 h3 h4 h5 i
    by (auto split: prod.splits)
qed

subsection \<open>get_dataset and its cache\<close>

lemma find_dataset_None:
  "find_dataset ds nm mi = None \<longleftrightarrow> (nm, mi) \<notin> set (map (\<lambda>d. (name d, multi_id d)) ds)"
  by (induction ds) (auto split: if_splits)

lemma find_dataset_Some:
  "find_dataset ds nm mi = Some (i, d) \<Longrightarrow> i < length ds \<and> ds ! i = d \<and> name d = nm \<and> multi_id d = mi"
proof (induction ds arbitrary: i)
  case Nil
  then show ?case by simp
next
  case (Cons a ds)
  show ?case
  proof (cases "name a = nm \<and> multi_id a = mi")
    case True
    with Cons.prems show ?thesis by auto
  next
    case False
    with Cons.prems obtain j where j: "find_dataset ds nm mi = Some (j, d)" and i: "i = Suc j"
      by (auto split: if_splits)
    from Cons.IH [OF j] i show ?thesis by simp
  qed
qed

lemma fetch_dataset_count: "1 \<le> snd (fetch_dataset ut db k nm mi lazy)"
  by (simp add: fetch_dataset_def split: list.splits sum.splits prod.splits)


lemma get_dataset_uncached:
  assumes "find_dataset (data_list self) nm mi = None"
  shows "get_dataset ut self db nm mi lazy caching =
     (case fetch_dataset ut db (pk self) nm mi lazy of
        (Inl e, n) \<Rightarrow> (Inl e, self, n)
      | (Inr (m, t, flds, dat), n) \<Rightarrow>
          (Inr \<lparr>name = nm, multi_id = mi, msg_id = m, timestamp_idx = t, field_data = flds,
                data = dat\<rparr>, self, n))"
  using assms by (simp add: get_dataset_def Let_def split: prod.splits sum.splits)

text \<open>
  C4. With caching on and no entry for (name, multi id) in the handle's dataset list,
  get_dataset executes the real fetch (at least one statement), returns what the fetch
  gives, and leaves the handle as it was, so the same call made again fetches again.
  With an entry that holds no data and lazy off, the fetched columns are written into
  that entry, at its index in the list.
\<close>

theorem get_dataset_cache_asymmetry:
  "((nm, mi) \<notin> set (map (\<lambda>d. (name d, multi_id d)) (data_list self)) \<longrightarrow>
      (case get_dataset ut self db nm mi lazy True of
         (r, self', n) \<Rightarrow>
           self' = self \<and> 1 \<le> n \<and> n = snd (fetch_dataset ut db (pk self) nm mi lazy) \<and>
           r = map_sum id
                 (\<lambda>(m, t, flds, dat). \<lparr>name = nm, multi_id = mi, msg_id = m, timestamp_idx = t,
                                        field_data = flds, data = dat\<rparr>)
                 (fst (fetch_dataset ut db (pk self) nm mi lazy)) \<and>
           get_dataset ut self' db nm mi lazy True = (r, self', n))) \<and>
   (find_dataset (data_list self) nm mi = Some (i, d) \<longrightarrow> data d = [] \<longrightarrow>
    fetch_dataset ut db (pk self) nm mi False = (Inr (m, t, flds, dat), n) \<longrightarrow>
      get_dataset ut self db nm mi False True =
        (Inr (d\<lparr>msg_id := m, timestamp_idx := t, field_data := flds, data := dat\<rparr>),
         self\<lparr>data_list :=
                (data_list self)[i := d\<lparr>msg_id := m, timestamp_idx := t, field_data := flds,
                                        data := dat\<rparr>]\<rparr>, n))"
proof (intro conjI impI)
  assume "(nm, mi) \<notin> set (map (\<lambda>d. (name d, multi_id d)) (data_list self))"
  then have none: "find_dataset (data_list self) nm mi = None"
    by (simp add: find_dataset_None)
  show "case get_dataset ut self db nm mi lazy True of
         (r, self', n) \<Rightarrow>
           self' = self \<and> 1 \<le> n \<and> n = snd (fetch_dataset ut db (pk self) nm mi lazy) \<and>
           r = map_sum id
                 (\<lambda>(m, t, flds, dat). \<lparr>name = nm, multi_id = mi, msg_id = m, timestamp_idx = t,
                                        field_data = flds, data = dat\<rparr>)
                 (fst (fetch_dataset ut db (pk self) nm mi lazy)) \<and>
           get_dataset ut self' db nm mi lazy True = (r, self', n)"
    using fetch_dataset_count [of ut db "pk self" nm mi lazy]
    by (cases "fetch_dataset ut db (pk self) nm mi lazy")
       (auto simp: get_dataset_uncached [OF none] split: sum.splits)
next
  assume "find_dataset (data_list self) nm mi = Some (i, d)" and "data d = []"
    and "fetch_dataset ut db (pk self) nm mi False = (Inr (m, t, flds, dat), n)"
  then show "get_dataset ut self db nm mi False True =
        (Inr (d\<lparr>msg_id := m, timestamp_idx := t, field_data := flds, data := dat\<rparr>),
         self\<lparr>data_list :=
                (data_list self)[i := d\<lparr>msg_id := m, timestamp_idx := t, field_data := flds,
                                        data := dat\<rparr>]\<rparr>, n)"
    by (simp add: get_dataset_def Let_def)
qed

theorem get_dataset_cache_asymmetry_witness:
  "(''imu'', 1) \<notin> set (map (\<lambda>d. (name d, multi_id d)) (data_list (empty_ulog\<lparr>pk := Some 1\<rparr>))) \<and>
   (case get_dataset example_unpack_types (empty_ulog\<lparr>pk := Some 1\<rparr>) example_db ''imu'' 1 False True of
      (r, self', n) \<Rightarrow>
        self' = empty_ulog\<lparr>pk := Some 1\<rparr> \<and> n = 2 \<and>
        get_dataset example_unpack_types self' example_db ''imu'' 1 False True = (r, self', n)) \<and>
   find_dataset (data_list example_lazy) ''imu'' 1 =
     Some (1, \<lparr>name = ''imu'', multi_id = 1, msg_id = 4, timestamp_idx = 0, field_data = [],
               data = []\<rparr>) \<and>
   fetch_dataset example_unpack_types example_db (pk example_lazy) ''imu'' 1 False =
     (Inr (4, 0,
        [\<lparr>field_name = ''timestamp'', type_str = ''uint64_t''\<rparr>,
         \<lparr>field_name = ''value'', type_str = ''float''\<rparr>],
        [(''timestamp'', \<lparr>arr_dtype = uint64, arr_bytes = [2, 0, 0, 0, 0, 0, 0, 0]\<rparr>),
         (''value'', \<lparr>arr_dtype = float32, arr_bytes = [0, 0, 0, 64]\<rparr>)]), 2) \<and>
   get_dataset example_unpack_types example_lazy example_db ''imu'' 1 False True =
     (Inr \<lparr>name = ''imu'', multi_id = 1, msg_id = 4, timestamp_idx = 0,
           field_data = [\<lparr>field_name = ''timestamp'', type_str = ''uint64_t''\<rparr>,
                         \<lparr>field_name = ''value'', type_str = ''float''\<rparr>],
           data = [(''timestamp'', \<lparr>arr_dtype = uint64, arr_bytes = [2, 0, 0, 0, 0, 0, 0, 0]\<rparr>),
                   (''value'', \<lparr>arr_dtype = float32, arr_bytes = [0, 0, 0, 64]\<rparr>)]\<rparr>,
      example_lazy\<lparr>data_list := (data_list example_lazy)
        [1 := \<lparr>name = ''imu'', multi_id = 1, msg_id = 4, timestamp_idx = 0,
           field_data = [\<lparr>field_name = ''timestamp'', type_str = ''uint64_t''\<rparr>,
                         \<lparr>field_name = ''value'', type_str = ''float''\<rparr>],
           data = [(''timestamp'', \<lparr>arr_dtype = uint64, arr_bytes = [2, 0, 0, 0, 0, 0, 0, 0]\<rparr>),
                   (''value'', \<lparr>arr_dtype = float32, arr_bytes = [0, 0, 0, 64]\<rparr>)]\<rparr>]\<rparr>, 2)"
proof -
  have h1: "(''imu'', 1) \<notin> set (map (\<lambda>d. (name d, multi_id d)) (data_list (empty_ulog\<lparr>pk := Some 1\<rparr>)))"
    by (simp add: empty_ulog_def)
  have n: "snd (fetch_dataset example_unpack_types example_db (pk (empty_ulog\<lparr>pk := Some 1\<rparr>)) ''imu'' 1 False) = 2"
    by code_simp
  have h2: "find_dataset (data_list example_lazy) ''imu'' 1 =
     Some (1, \<lparr>name = ''imu'', multi_id = 1, msg_id = 4, timestamp_idx = 0, field_data = [],
               data = []\<rparr>)"
    by code_simp
  have h3: "fetch_dataset example_unpack_types example_db (pk example_lazy) ''imu'' 1 False =
     (Inr (4, 0,
        [\<lparr>field_name = ''timestamp'', type_str = ''uint64_t''\<rparr>,
         \<lparr>field_name = ''value'', type_str = ''float''\<rparr>],
        [(''timestamp'', \<lparr>arr_dtype = uint64, arr_bytes = [2, 0, 0, 0, 0, 0, 0, 0]\<rparr>),
         (''value'', \<lparr>arr_dtype = float32, arr_bytes = [0, 0, 0, 64]\<rparr>)]), 2)"
    by code_simp
  note thm1 = get_dataset_cache_asymmetry
    [where nm = "''imu''" and mi = 1 and self = "empty_ulog\<lparr>pk := Some 1\<rparr>"
       and ut = example_unpack_types and db = example_db and lazy = False,
     THEN conjunct1, rule_format, OF h1]
  note thm2 = get_dataset_cache_asymmetry
    [where nm = "''imu''" and mi = 1 and self = example_lazy
       and ut = example_unpack_types and db = example_db,
     THEN conjunct2, rule_format, OF h2 _ h3]
  show ?thesis
    using h1 n h2 h3 thm1 thm2 by (auto split: prod.splits)
qed

subsection \<open>The errors of save\<close>








subsection \<open>load\<close>















subsection \<open>delete\<close>






subsection \<open>Reads and the secondary encoding\<close>

lemma read_fields_json:
  "read_fields ut (map (\<lambda>f. f\<lparr>fd_ValueJson := None\<rparr>) rs) flds dat = read_fields ut rs flds dat"
  by (induction rs arbitrary: flds dat) (auto split: option.splits sum.splits)

lemma fetch_dataset_erase_json:
  "fetch_dataset ut (erase_json db) k nm mi lazy = fetch_dataset ut db k nm mi lazy"
  by (simp add: fetch_dataset_def erase_json_def filter_map comp_def read_fields_json
        split: list.splits)

lemma get_dataset_erase_json:
  "get_dataset ut self (erase_json db) nm mi lazy caching = get_dataset ut self db nm mi lazy caching"
  unfolding get_dataset_def fetch_dataset_erase_json ..

lemma load_datasets_erase_json:
  "load_datasets ut (erase_json db) lazy ps self = load_datasets ut db lazy ps self"
  by (induction ps arbitrary: self) (auto simp: get_dataset_erase_json split: prod.splits sum.splits)

lemma selects_erase_json:
  "exists_in_db (erase_json db) k = exists_in_db db k"
  "ULog (erase_json db) = ULog db"
  "dataset_results (erase_json db) k = dataset_results db k"
  "select_offsets (erase_json db) k = select_offsets db k"
  "select_dropouts (erase_json db) k = select_dropouts db k"
  "select_logged_messages (erase_json db) k = select_logged_messages db k"
  "select_logged_messages_tagged (erase_json db) k = select_logged_messages_tagged db k"
  "format_join (erase_json db) k = format_join db k"
  "select_info (erase_json db) k = select_info db k"
  "select_info_multiple (erase_json db) k = select_info_multiple db k"
  "info_multiple_lists (erase_json db) = info_multiple_lists db"
  "select_initial_parameters (erase_json db) k = select_initial_parameters db k"
  "select_default_parameters (erase_json db) k = select_default_parameters db k"
  "select_changed_parameters (erase_json db) k = select_changed_parameters db k"
  by (simp_all add: erase_json_def exists_in_db_def dataset_results_def select_offsets_def
        select_dropouts_def select_logged_messages_def select_logged_messages_tagged_def
        format_join_def select_info_def select_info_multiple_def info_multiple_lists_def
        select_initial_parameters_def select_default_parameters_def
        select_changed_parameters_def fun_eq_iff)

lemma load_erase_json: "load ut self (erase_json db) lazy = load ut self db lazy"
  unfolding load_def load_header_def load_rest_def selects_erase_json
    load_datasets_erase_json ..

lemma save_fields_json:
  assumes "save_fields to_json True d i fs ta = Inr fa"
    and "map (\<lambda>f. f\<lparr>fd_ValueJson := None\<rparr>) ta = map (\<lambda>f. f\<lparr>fd_ValueJson := None\<rparr>) tb"
  shows "\<exists>fb. save_fields to_json False d i fs tb = Inr fb \<and>
           map (\<lambda>f. f\<lparr>fd_ValueJson := None\<rparr>) fa = map (\<lambda>f. f\<lparr>fd_ValueJson := None\<rparr>) fb"
  using assms
proof (induction fs arbitrary: ta tb)
  case Nil
  then show ?case by simp
next
  case (Cons f fs)
  from Cons.prems(1) obtain vals where v: "map_of (data d) (field_name f) = Some vals"
    by (auto split: option.splits)
  from Cons.prems(1) v obtain j where
    s: "save_fields to_json True d i fs
          (ta @ [\<lparr>fd_TopicName = field_name f, fd_DataType = type_str f,
                   fd_ValueArray = tobytes vals, fd_ValueJson = Some j, fd_DatasetId = i\<rparr>]) = Inr fa"
    by (auto split: option.splits sum.splits)
  have "map (\<lambda>f. f\<lparr>fd_ValueJson := None\<rparr>)
          (ta @ [\<lparr>fd_TopicName = field_name f, fd_DataType = type_str f,
                   fd_ValueArray = tobytes vals, fd_ValueJson = Some j, fd_DatasetId = i\<rparr>]) =
        map (\<lambda>f. f\<lparr>fd_ValueJson := None\<rparr>)
          (tb @ [\<lparr>fd_TopicName = field_name f, fd_DataType = type_str f,
                   fd_ValueArray = tobytes vals, fd_ValueJson = None, fd_DatasetId = i\<rparr>])"
    using Cons.prems(2) by simp
  from Cons.IH [OF s this] show ?case using v by simp
qed

lemma save_datasets_json:
  assumes "save_datasets to_json True k ds (dt, fa) = Inr (dt', fa')"
    and "map (\<lambda>f. f\<lparr>fd_ValueJson := None\<rparr>) fa = map (\<lambda>f. f\<lparr>fd_ValueJson := None\<rparr>) fb"
  shows "\<exists>fb'. save_datasets to_json False k ds (dt, fb) = Inr (dt', fb') \<and>
           map (\<lambda>f. f\<lparr>fd_ValueJson := None\<rparr>) fa' = map (\<lambda>f. f\<lparr>fd_ValueJson := None\<rparr>) fb'"
  using assms
proof (induction ds arbitrary: dt fa fb)
  case Nil
  then show ?case by simp
next
  case (Cons d ds)
  from Cons.prems(1) obtain fa1 where
    f1: "save_fields to_json True d (lastrowid (map ds_Id dt)) (field_data d) fa = Inr fa1"
    by (auto split: sum.splits)
  from save_fields_json [OF f1 Cons.prems(2)] obtain fb1 where
    f2: "save_fields to_json False d (lastrowid (map ds_Id dt)) (field_data d) fb = Inr fb1" and
    e: "map (\<lambda>f. f\<lparr>fd_ValueJson := None\<rparr>) fa1 = map (\<lambda>f. f\<lparr>fd_ValueJson := None\<rparr>) fb1"
    by blast
  from Cons.prems(1) f1 have
    "save_datasets to_json True k ds
       (dt @ [\<lparr>ds_Id = lastrowid (map ds_Id dt), ds_DatasetName = name d,
                ds_MultiId = multi_id d, ds_MessageId = msg_id d,
                ds_TimestampIndex = timestamp_idx d, ds_ULogId = k\<rparr>], fa1) = Inr (dt', fa')"
    by simp
  from Cons.IH [OF this e] show ?case using f2 by simp
qed

lemma save_rows_json:
  assumes "save_rows to_json True self k cf icf db = Inr db1"
  shows "\<exists>db2. save_rows to_json False self k cf icf db = Inr db2 \<and>
           erase_json db1 = erase_json db2"
proof -
  from assms obtain dt fa where
    d: "save_datasets to_json True k (data_list self) (ULogDataset db, ULogField db) = Inr (dt, fa)"
    by (auto simp: save_rows_def split: sum.splits)
  from save_datasets_json [OF d refl] obtain fb where
    d2: "save_datasets to_json False k (data_list self) (ULogDataset db, ULogField db) = Inr (dt, fb)"
    and e: "map (\<lambda>f. f\<lparr>fd_ValueJson := None\<rparr>) fa = map (\<lambda>f. f\<lparr>fd_ValueJson := None\<rparr>) fb"
    by blast
  show ?thesis
    using assms d d2 e
    by (auto simp: save_rows_def erase_json_def split: sum.splits prod.splits)
qed

text \<open>
  C8. When save with the JSON encoding on succeeds, save with it off succeeds from the
  same state with the same handle, the two databases differ in the ValueJson column
  only, and load and get_dataset return from the one what they return from the other,
  for every handle and every argument.
\<close>

theorem reads_ignore_json:
  assumes "save to_json self db True = (None, self1, db1)"
  shows "\<exists>db2. save to_json self db False = (None, self1, db2) \<and>
     erase_json db1 = erase_json db2 \<and>
     (\<forall>ut h lazy. load ut h db1 lazy = load ut h db2 lazy) \<and>
     (\<forall>ut h nm mi lazy caching.
        get_dataset ut h db1 nm mi lazy caching = get_dataset ut h db2 nm mi lazy caching)"
proof -
  from assms have p: "pk self = None" "primary_key_from_sha256sum db (sha256sum self) = None"
    by (auto simp: save_def split: if_splits option.splits)
  from assms p obtain cf icf where
    c: "join_chr (compat_flags self) = Inr cf" "join_chr (incompat_flags self) = Inr icf"
    by (auto simp: save_def split: sum.splits)
  from assms p c have
    r: "save_rows to_json True self (lastrowid (map Id (ULog db))) cf icf db = Inr db1"
    and s1: "self1 = self\<lparr>pk := Some (lastrowid (map Id (ULog db)))\<rparr>"
    by (auto simp: save_def transaction_def split: sum.splits)
  from save_rows_json [OF r] obtain db2 where
    r2: "save_rows to_json False self (lastrowid (map Id (ULog db))) cf icf db = Inr db2"
    and e: "erase_json db1 = erase_json db2"
    by blast
  have "save to_json self db False = (None, self1, db2)"
    using p c r2 s1 by (simp add: save_def transaction_def)
  moreover have "load ut h db1 lazy = load ut h db2 lazy" for ut h lazy
    using load_erase_json [of ut h db1 lazy] load_erase_json [of ut h db2 lazy] e by simp
  moreover have "get_dataset ut h db1 nm mi lazy caching = get_dataset ut h db2 nm mi lazy caching"
    for ut h nm mi lazy caching
    using get_dataset_erase_json [of ut h db1 nm mi lazy caching]
      get_dataset_erase_json [of ut h db2 nm mi lazy caching] e by simp
  ultimately show ?thesis using e by blast
qed

theorem reads_ignore_json_witness:
  "save example_to_json example_log (new_database 5) True =
     (None, example_log\<lparr>pk := Some 1\<rparr>, example_db_json) \<and>
   save example_to_json example_log (new_database 5) False =
     (None, example_log\<lparr>pk := Some 1\<rparr>, example_db) \<and>
   example_db_json \<noteq> example_db \<and>
   load example_unpack_types (empty_ulog\<lparr>pk := Some 1\<rparr>) example_db_json False =
     load example_unpack_types (empty_ulog\<lparr>pk := Some 1\<rparr>) example_db False \<and>
   get_dataset example_unpack_types example_lazy example_db_json ''imu'' 1 False True =
     get_dataset example_unpack_types example_lazy example_db ''imu'' 1 False True"
proof -
  have h: "save example_to_json example_log (new_database 5) True =
     (None, example_log\<lparr>pk := Some 1\<rparr>, example_db_json)"
    by code_simp
  have g: "save example_to_json example_log (new_database 5) False =
     (None, example_log\<lparr>pk := Some 1\<rparr>, example_db)"
    by code_simp
  have n: "map fd_ValueJson (ULogField example_db_json) \<noteq> map fd_ValueJson (ULogField example_db)"
    by code_simp
  from reads_ignore_json [OF h] g have
    "load example_unpack_types (empty_ulog\<lparr>pk := Some 1\<rparr>) example_db_json False =
     load example_unpack_types (empty_ulog\<lparr>pk := Some 1\<rparr>) example_db False"
    "get_dataset example_unpack_types example_lazy example_db_json ''imu'' 1 False True =
     get_dataset example_unpack_types example_lazy example_db ''imu'' 1 False True"
    by auto
  with h g n show ?thesis by auto
qed

subsection \<open>save is all or nothing\<close>

lemma save_fields_append:
  "save_fields to_json aj d i fs ft = Inr ft' \<Longrightarrow> \<exists>nf. ft' = ft @ nf \<and> length nf = length fs"
proof (induction fs arbitrary: ft)
  case Nil
  then show ?case by simp
next
  case (Cons f fs)
  from Cons.prems obtain row where "save_fields to_json aj d i fs (ft @ [row]) = Inr ft'"
    by (auto split: option.splits sum.splits if_splits)
  from Cons.IH [OF this] show ?case by auto
qed

lemma save_datasets_append:
  "save_datasets to_json aj k ds (dt, ft) = Inr (dt', ft') \<Longrightarrow>
     \<exists>nd nf. dt' = dt @ nd \<and> ft' = ft @ nf \<and> length nd = length ds \<and>
       length nf = sum_list (map (\<lambda>d. length (field_data d)) ds)"
proof (induction ds arbitrary: dt ft)
  case Nil
  then show ?case by simp
next
  case (Cons d ds)
  from Cons.prems obtain ft1 where
    f: "save_fields to_json aj d (lastrowid (map ds_Id dt)) (field_data d) ft = Inr ft1"
    by (auto split: sum.splits)
  from save_fields_append [OF f] obtain nf1 where
    nf1: "ft1 = ft @ nf1" "length nf1 = length (field_data d)" by blast
  from Cons.prems f obtain row where
    "save_datasets to_json aj k ds (dt @ [row], ft1) = Inr (dt', ft')"
    by simp
  from Cons.IH [OF this] obtain nd nf where
    "dt' = (dt @ [row]) @ nd" "ft' = ft1 @ nf" "length nd = length ds"
    "length nf = sum_list (map (\<lambda>d. length (field_data d)) ds)"
    by blast
  with nf1 show ?case
    by (intro exI [of _ "row # nd"] exI [of _ "nf1 @ nf"]) simp
qed

lemma save_formats_append:
  "save_formats k items (mt, ft) = (mt', ft') \<Longrightarrow>
     \<exists>nm nf. mt' = mt @ nm \<and> ft' = ft @ nf \<and> length nm = length items \<and>
       length nf = sum_list (map (\<lambda>(nm, f). length (format_fields f)) items)"
proof (induction items arbitrary: mt ft)
  case Nil
  then show ?case by simp
next
  case (Cons it items)
  obtain n f where it: "it = (n, f)" by (cases it)
  from Cons.prems it obtain row rows where
    s: "save_formats k items (mt @ [row], ft @ rows) = (mt', ft')"
    and l: "length rows = length (format_fields f)"
    by simp
  from Cons.IH [OF s] obtain nm nf where
    "mt' = (mt @ [row]) @ nm" "ft' = (ft @ rows) @ nf" "length nm = length items"
    "length nf = sum_list (map (\<lambda>(nm, f). length (format_fields f)) items)"
    by blast
  with l it show ?case
    by (intro exI [of _ "row # nm"] exI [of _ "rows @ nf"]) simp
qed

lemma save_lists_append:
  "save_lists mid en (lt, et) = (lt', et') \<Longrightarrow>
     \<exists>nl ne. lt' = lt @ nl \<and> et' = et @ ne \<and> length nl = length en \<and>
       length ne = sum_list (map (\<lambda>(i, xs). length xs) en)"
proof (induction en arbitrary: lt et)
  case Nil
  then show ?case by simp
next
  case (Cons it en)
  obtain i xs where it: "it = (i, xs)" by (cases it)
  from Cons.prems it obtain row rows where
    s: "save_lists mid en (lt @ [row], et @ rows) = (lt', et')"
    and l: "length rows = length xs"
    by (simp add: enumerate_py_def)
  from Cons.IH [OF s] obtain nl ne where
    "lt' = (lt @ [row]) @ nl" "et' = (et @ rows) @ ne" "length nl = length en"
    "length ne = sum_list (map (\<lambda>(i, xs). length xs) en)"
    by blast
  with l it show ?case
    by (intro exI [of _ "row # nl"] exI [of _ "rows @ ne"]) simp
qed

lemma length_enumerate_py: "length (enumerate_py xs) = length xs"
  by (simp add: enumerate_py_def)

lemma sum_list_enumerate:
  "sum_list (map (\<lambda>(i, xs). f xs) (enumerate_py ls)) = sum_list (map f ls)"
proof -
  have "map (\<lambda>(i, xs). f xs) (enumerate_py ls) = map f (map snd (enumerate_py ls))"
    by (simp add: case_prod_beta comp_def)
  then show ?thesis by (simp add: enumerate_py_def)
qed

lemma save_info_multiple_append:
  "save_info_multiple k types items (mt, lt, et) = Inr (mt', lt', et') \<Longrightarrow>
     \<exists>nm nl ne. mt' = mt @ nm \<and> lt' = lt @ nl \<and> et' = et @ ne \<and> length nm = length items \<and>
       length nl = sum_list (map (\<lambda>(key, ls). length ls) items) \<and>
       length ne = sum_list (map (\<lambda>(key, ls). sum_list (map length ls)) items)"
proof (induction items arbitrary: mt lt et)
  case Nil
  then show ?case by simp
next
  case (Cons it items)
  obtain key ls where it: "it = (key, ls)" by (cases it)
  obtain lt1 et1 where
    sl: "save_lists (lastrowid (map mm_Id mt)) (enumerate_py ls) (lt, et) = (lt1, et1)"
    by (cases "save_lists (lastrowid (map mm_Id mt)) (enumerate_py ls) (lt, et)")
  from save_lists_append [OF sl] obtain nl1 ne1 where
    a: "lt1 = lt @ nl1" "et1 = et @ ne1" "length nl1 = length ls"
    "length ne1 = sum_list (map length ls)"
    by (auto simp: sum_list_enumerate length_enumerate_py)
  from Cons.prems it sl obtain row where
    "save_info_multiple k types items (mt @ [row], lt1, et1) = Inr (mt', lt', et')"
    by (auto split: option.splits)
  from Cons.IH [OF this] obtain nm nl ne where
    "mt' = (mt @ [row]) @ nm" "lt' = lt1 @ nl" "et' = et1 @ ne" "length nm = length items"
    "length nl = sum_list (map (\<lambda>(key, ls). length ls) items)"
    "length ne = sum_list (map (\<lambda>(key, ls). sum_list (map length ls)) items)"
    by blast
  with a it show ?case
    by (intro exI [of _ "row # nm"] exI [of _ "nl1 @ nl"] exI [of _ "ne1 @ ne"]) simp
qed

lemma info_rows_length: "info_rows k types items = Inr rows \<Longrightarrow> length rows = length items"
  by (induction items arbitrary: rows) (auto split: option.splits sum.splits)

lemma length_concat_items:
  "length (concat (map (\<lambda>(a, xs). map (f a) xs) items)) = sum_list (map (\<lambda>(a, xs). length xs) items)"
  by (induction items) auto

lemma save_rows_sizes:
  assumes "save_rows to_json aj self k cf icf db = Inr db'"
  shows "rows_kept db db' \<and> table_sizes db' = map2 (+) (table_sizes db) (log_sizes self) \<and>
         list_ex (\<lambda>r. Id r = k) (ULog db')"
proof -
  from assms obtain dt ft where
    d: "save_datasets to_json aj k (data_list self) (ULogDataset db, ULogField db) = Inr (dt, ft)"
    by (auto simp: save_rows_def split: sum.splits)
  from assms d obtain irows where
    i: "info_rows k (msg_info_dict_types self) (msg_info_dict self) = Inr irows"
    by (auto simp: save_rows_def split: sum.splits)
  from assms d i obtain mt lt et where
    m: "save_info_multiple k (msg_info_multiple_dict_types self) (msg_info_multiple_dict self)
          (ULogMessageInfoMultiple db, ULogMessageInfoMultipleList db,
           ULogMessageInfoMultipleListElement db) = Inr (mt, lt, et)"
    by (auto simp: save_rows_def split: sum.splits)
  obtain fmt fft where
    f: "save_formats k (message_formats self) (ULogMessageFormat db, ULogMessageFormatField db) =
          (fmt, fft)"
    by (cases "save_formats k (message_formats self)
          (ULogMessageFormat db, ULogMessageFormatField db)")
  note a = save_datasets_append [OF d] info_rows_length [OF i] save_info_multiple_append [OF m]
    save_formats_append [OF f]
  from assms d i m f have db': "db' = db\<lparr>
      ULog := ULog db @
        [\<lparr>Id = k, FileVersion = file_version self, StartTimestamp = start_timestamp self,
          LastTimestamp = last_timestamp self, CompatFlags = cf, IncompatFlags = icf,
          SyncCount = sync_seq_cnt self, HasSync = has_sync self, SHA256Sum = sha256sum self\<rparr>],
      ULogAppendedOffsets := ULogAppendedOffsets db @
        map (\<lambda>(list_index, offset).
               \<lparr>ao_SeriesIndex = list_index, ao_Offset = offset, ao_ULogId = k\<rparr>)
          (enumerate_py (appended_offsets self)),
      ULogDataset := dt,
      ULogField := ft,
      ULogMessageDropout := ULogMessageDropout db @
        map (\<lambda>dropout. \<lparr>md_Timestamp = dropout_timestamp dropout,
                        md_Duration = dropout_duration dropout, md_ULogId = k\<rparr>) (dropouts self),
      ULogMessageLogging := ULogMessageLogging db @
        map (\<lambda>m. \<lparr>ml_LogLevel = log_level m, ml_Timestamp = log_timestamp m,
                  ml_Message = log_message m, ml_ULogId = k\<rparr>) (logged_messages self),
      ULogMessageLoggingTagged := ULogMessageLoggingTagged db @
        concat (map (\<lambda>(tg, messages).
                  map (\<lambda>m. \<lparr>mt_LogLevel = tagged_log_level m, mt_Timestamp = tagged_timestamp m,
                            mt_Tag = tg, mt_Message = tagged_message m, mt_ULogId = k\<rparr>) messages)
                (logged_messages_tagged self)),
      ULogMessageFormat := fmt,
      ULogMessageFormatField := fft,
      ULogMessageInfo := ULogMessageInfo db @ irows,
      ULogMessageInfoMultiple := mt,
      ULogMessageInfoMultipleList := lt,
      ULogMessageInfoMultipleListElement := et,
      ULogInitialParameter := ULogInitialParameter db @
        map (\<lambda>(key, v). \<lparr>ip_Key = key, ip_Value = v, ip_ULogId = k\<rparr>) (initial_parameters self),
      ULogDefaultParameter := ULogDefaultParameter db @
        concat (map (\<lambda>(default_type, parameters).
                  map (\<lambda>(key, v). \<lparr>dp_DefaultType = default_type, dp_Key = key, dp_Value = v,
                                   dp_ULogId = k\<rparr>) parameters)
                (default_parameters self)),
      ULogChangedParameter := ULogChangedParameter db @
        map (\<lambda>(ts, key, v). \<lparr>cp_Timestamp = ts, cp_Key = key, cp_Value = v, cp_ULogId = k\<rparr>)
          (changed_parameters self)\<rparr>"
    by (simp add: save_rows_def)
  have kept: "rows_kept db db'"
    using a unfolding db' rows_kept_def by auto
  have sizes: "table_sizes db' = map2 (+) (table_sizes db) (log_sizes self)"
    using a unfolding db' table_sizes_def log_sizes_def
    by (auto simp: enumerate_py_def length_concat_items)
  have "list_ex (\<lambda>r. Id r = k) (ULog db')"
    unfolding db' by simp
  with kept sizes show ?thesis by blast
qed

lemma fold_max_ge: "(a::nat) \<le> fold max ids a \<and> (\<forall>x\<in>set ids. x \<le> fold max ids a)"
proof (induction ids arbitrary: a)
  case Nil
  then show ?case by simp
next
  case (Cons i ids)
  from Cons.IH [of "max i a"] have
    m: "max i a \<le> fold max ids (max i a)" and r: "\<forall>x\<in>set ids. x \<le> fold max ids (max i a)"
    by blast+
  from m have "a \<le> fold max ids (max i a)" "i \<le> fold max ids (max i a)" by simp_all
  with r show ?case by simp
qed

lemma lastrowid_greater: "x \<in> set ids \<Longrightarrow> x < lastrowid ids"
  using fold_max_ge [of 0 ids] by (auto simp: lastrowid_def less_Suc_eq_le)

lemma lastrowid_fresh: "lastrowid ids \<notin> set ids"
  using lastrowid_greater [of "lastrowid ids" ids] by auto

text \<open>
  C3. Whatever save returns, when it returns an error the database is the one it was
  called on. When it succeeds, every row that was in the database is still there, at
  the head of its table, every table has grown by the number of rows the log has for
  it (one row of ULog, one per offset, dataset, field, format, format field, dropout,
  message, info entry, list, list element and parameter), and the handle's primary key
  is the Id of a ULog row that was not there before.
\<close>

theorem save_atomic:
  "case save to_json self db append_json of
     (Some e, self', db') \<Rightarrow> db' = db
   | (None, self', db') \<Rightarrow>
       rows_kept db db' \<and> table_sizes db' = map2 (+) (table_sizes db) (log_sizes self) \<and>
       (\<exists>k. pk self' = Some k \<and> list_ex (\<lambda>r. Id r = k) (ULog db') \<and>
            \<not> list_ex (\<lambda>r. Id r = k) (ULog db))"
proof (cases "save to_json self db append_json")
  case (fields r self' db')
  show ?thesis
  proof (cases r)
    case (Some e)
    with fields have "db' = db"
      by (auto simp: save_def transaction_def split: if_splits option.splits sum.splits)
    with fields Some show ?thesis by simp
  next
    case None
    with fields obtain cf icf where
      r: "save_rows to_json append_json self (lastrowid (map Id (ULog db))) cf icf db = Inr db'"
      and s: "self' = self\<lparr>pk := Some (lastrowid (map Id (ULog db)))\<rparr>"
      by (auto simp: save_def transaction_def split: if_splits option.splits sum.splits)
    have "Id x \<noteq> lastrowid (map Id (ULog db))" if "x \<in> set (ULog db)" for x
      using lastrowid_greater [of "Id x" "map Id (ULog db)"] that by simp
    then have "\<not> list_ex (\<lambda>r. Id r = lastrowid (map Id (ULog db))) (ULog db)"
      by (simp add: list_ex_iff)
    with save_rows_sizes [OF r] s fields None show ?thesis by auto
  qed
qed

theorem save_atomic_witness:
  "save example_to_json example_log (new_database 5) False =
     (None, example_log\<lparr>pk := Some 1\<rparr>, example_db) \<and>
   rows_kept (new_database 5) example_db \<and>
   table_sizes example_db = [1, 2, 2, 4, 1, 1, 1, 1, 2, 1, 1, 2, 3, 1, 1, 1] \<and>
   save example_to_json example_bad_log example_db False =
     (Some (KeyError ''value''), example_bad_log\<lparr>pk := Some 2\<rparr>, example_db)"
proof -
  have a: "save example_to_json example_log (new_database 5) False =
     (None, example_log\<lparr>pk := Some 1\<rparr>, example_db)"
    by code_simp
  have b: "fst (save example_to_json example_bad_log example_db False) = Some (KeyError ''value'')"
    "fst (snd (save example_to_json example_bad_log example_db False)) =
       example_bad_log\<lparr>pk := Some 2\<rparr>"
    by code_simp+
  have c: "map2 (+) (table_sizes (new_database 5)) (log_sizes example_log) =
      [1, 2, 2, 4, 1, 1, 1, 1, 2, 1, 1, 2, 3, 1, 1, 1]"
    by code_simp
  from save_atomic [where to_json = example_to_json and self = example_log
      and db = "new_database 5" and append_json = False] a c
  have "rows_kept (new_database 5) example_db"
    "table_sizes example_db = [1, 2, 2, 4, 1, 1, 1, 1, 2, 1, 1, 2, 3, 1, 1, 1]"
    by simp_all
  moreover from save_atomic [where to_json = example_to_json and self = example_bad_log
      and db = example_db and append_json = False] b
  have "save example_to_json example_bad_log example_db False =
     (Some (KeyError ''value''), example_bad_log\<lparr>pk := Some 2\<rparr>, example_db)"
    by (cases "save example_to_json example_bad_log example_db False") auto
  ultimately show ?thesis using a by simp
qed

text \<open>For instance, saving a log that holds no data for a field it declares fails
  after the ULog row was inserted, and the database is the one before the call; the
  handle keeps the primary key it was assigned.\<close>

lemma save_rollback_example:
  "save example_to_json example_bad_log example_db False =
     (Some (KeyError ''value''), example_bad_log\<lparr>pk := Some 2\<rparr>, example_db)"
  by code_simp

subsection \<open>Round trip: dictionaries rebuilt from rows\<close>













lemma sort_key_enumerate:
  "sort_key fst (enumerate_py xs) = enumerate_py xs"
  by (rule sort_key_id_if_sorted) (simp add: enumerate_py_def)

subsection \<open>Round trip: datasets\<close>











subsection \<open>Round trip: message formats\<close>





subsection \<open>Round trip: tagged messages and default parameters\<close>





subsection \<open>Round trip: info entries\<close>










subsection \<open>Round trip: the flat tables\<close>











subsection \<open>Round trip: the nested tables\<close>




subsection \<open>The round trip\<close>





end
